theory Spec2Isabelle
  imports Complex_Main "HOL-Library.AList" "HOL-Library.Char_ord" "HOL-Library.List_Lexorder"
begin

section \<open>Values and exceptions\<close>

text \<open>
  Recipients, events and result records are Python dictionaries loaded from JSON.  A JSON
  value is modelled by \<open>json\<close>; a dictionary is an association list whose first binding of a
  key is the one \<open>dict.get\<close> sees, and whose order is the insertion order.  Strings are
  UTF-8 byte sequences; \<open>str.lower\<close> and \<open>str.strip\<close> are modelled on the ASCII range
  (the Unicode case and whitespace tables beyond it are not modelled).  JSON numbers are
  the rationals they denote; binary rounding of floats is not modelled.
\<close>

datatype json =
    JNull
  | JBool bool
  | JNum rat
  | JStr string
  | JList "json list"
  | JObj "(string \<times> json) list"

type_synonym pydict = "(string \<times> json) list"

datatype error =
    TypeError
  | AttributeError
  | KeyError
  | IndexError
  | ValueError
  | ZeroDivisionError
  | OSError

definition ebind :: "error + 'a \<Rightarrow> ('a \<Rightarrow> error + 'b) \<Rightarrow> error + 'b" where
  "ebind m f = (case m of Inl e \<Rightarrow> Inl e | Inr x \<Rightarrow> f x)"

text \<open>\<open>d.get(k)\<close> with Python's \<open>None\<close> read as \<open>JNull\<close>, and \<open>d.get(k, default)\<close>.\<close>

definition get_none :: "pydict \<Rightarrow> string \<Rightarrow> json" where
  "get_none d k = (case map_of d k of None \<Rightarrow> JNull | Some v \<Rightarrow> v)"

definition get_default :: "pydict \<Rightarrow> string \<Rightarrow> json \<Rightarrow> json" where
  "get_default d k dflt = (case map_of d k of None \<Rightarrow> dflt | Some v \<Rightarrow> v)"

text \<open>\<open>x.get(k, default)\<close> on an arbitrary value: only a dictionary has the method.\<close>

definition attr_get :: "json \<Rightarrow> string \<Rightarrow> json \<Rightarrow> error + json" where
  "attr_get x k dflt = (case x of JObj d \<Rightarrow> Inr (get_default d k dflt) | _ \<Rightarrow> Inl AttributeError)"

text \<open>Python truthiness of a JSON value.\<close>

fun truthy :: "json \<Rightarrow> bool" where
  "truthy JNull = False"
| "truthy (JBool b) = b"
| "truthy (JNum q) = (q \<noteq> 0)"
| "truthy (JStr s) = (s \<noteq> [])"
| "truthy (JList xs) = (xs \<noteq> [])"
| "truthy (JObj d) = (d \<noteq> [])"

text \<open>Iteration (\<open>for t in x\<close>): a list yields its elements, a string its characters,
  a dictionary its keys; anything else raises \<open>TypeError\<close>.\<close>

definition py_iter :: "json \<Rightarrow> error + json list" where
  "py_iter x = (case x of
      JList xs \<Rightarrow> Inr xs
    | JStr s \<Rightarrow> Inr (map (\<lambda>c. JStr [c]) s)
    | JObj d \<Rightarrow> Inr (map JStr (remdups (map fst d)))
    | _ \<Rightarrow> Inl TypeError)"

fun starts_with :: "string \<Rightarrow> string \<Rightarrow> bool" where
  "starts_with [] s = True"
| "starts_with (c # cs) [] = False"
| "starts_with (c # cs) (d # ds) = (c = d \<and> starts_with cs ds)"

fun substring :: "string \<Rightarrow> string \<Rightarrow> bool" where
  "substring m [] = (m = [])"
| "substring m (d # ds) = (starts_with m (d # ds) \<or> substring m ds)"

text \<open>\<open>k in x\<close> for a string \<open>k\<close>: key membership in a dictionary, element membership
  in a list, substring test in a string, \<open>TypeError\<close> otherwise.\<close>

definition py_in :: "string \<Rightarrow> json \<Rightarrow> error + bool" where
  "py_in k x = (case x of
      JObj d \<Rightarrow> Inr (k \<in> set (map fst d))
    | JList xs \<Rightarrow> Inr (JStr k \<in> set xs)
    | JStr s \<Rightarrow> Inr (substring k s)
    | _ \<Rightarrow> Inl TypeError)"

definition is_list :: "json \<Rightarrow> bool" where
  "is_list x = (case x of JList xs \<Rightarrow> True | _ \<Rightarrow> False)"

subsection \<open>String methods\<close>

definition is_space :: "char \<Rightarrow> bool" where
  "is_space c = (let n = (of_char c :: nat) in (9 \<le> n \<and> n \<le> 13) \<or> (28 \<le> n \<and> n \<le> 32))"

definition strip :: "string \<Rightarrow> string" where
  "strip s = rev (dropWhile is_space (rev (dropWhile is_space s)))"

definition lower_char :: "char \<Rightarrow> char" where
  "lower_char c = (let n = (of_char c :: nat) in if 65 \<le> n \<and> n \<le> 90 then char_of (n + 32) else c)"

definition lower :: "string \<Rightarrow> string" where
  "lower s = map lower_char s"

section \<open>The external world of one pair\<close>

text \<open>
  What the code obtains from libraries and services is a parameter of the model:
  \<^item> \<open>dateparse\<close> is \<open>dateutil.parser.parse\<close>: the parsed date and time, or the text of the
    exception it raises;
  \<^item> \<open>ist_localize\<close> is \<open>IST.localize\<close> of pytz for Asia/Kolkata: the UTC offset given to
    a naive wall-clock reading, or the text of the exception;
  \<^item> \<open>now_utc\<close> is \<open>datetime.now(timezone.utc)\<close> and \<open>now_iso\<close> is
    \<open>datetime.now(IST).isoformat()\<close>;
  \<^item> \<open>py_repr\<close> is what an f-string prints for a value that is not a string, \<open>None\<close> or a
    Boolean, and \<open>py_repr_set\<close> what it prints for the set of the given strings;
  \<^item> \<open>ai_outcome\<close> is what the request to the text-generation service and the parsing of
    its reply come to, should the request be made;
  \<^item> \<open>str_exc\<close> is \<open>str(e)\<close> of a caught exception.
  Instants and wall-clock readings are microseconds relative to 1970-01-01T00:00:00.
\<close>

record datetime =
  wall :: int
  tzoffset :: "int option"

datatype provider_outcome =
    Parsed json
  | JSONDecodeError string
  | OtherError string

record env =
  dateparse :: "json \<Rightarrow> string + datetime"
  ist_localize :: "int \<Rightarrow> string + int"
  now_utc :: int
  now_iso :: string
  py_repr :: "json \<Rightarrow> string"
  py_repr_set :: "string list \<Rightarrow> string"
  ai_outcome :: provider_outcome
  str_exc :: "error \<Rightarrow> string"

text \<open>What \<open>f"{x}"\<close> prints.\<close>

definition py_str :: "env \<Rightarrow> json \<Rightarrow> string" where
  "py_str E x = (case x of
      JStr s \<Rightarrow> s
    | JNull \<Rightarrow> ''None''
    | JBool b \<Rightarrow> (if b then ''True'' else ''False'')
    | _ \<Rightarrow> py_repr E x)"

section \<open>brain.py: validation\<close>

record validation_rules =
  required_recipient_fields :: "string list"
  required_event_fields :: "string list"
  required_metadata_fields :: "string list"
  topic_match_medium :: nat
  engagement_high :: rat
  engagement_low :: rat

definition VALIDATION_RULES :: validation_rules where
  "VALIDATION_RULES = \<lparr>
     required_recipient_fields =
       [''recipient_id'', ''name'', ''email'', ''organization'', ''topics'',
        ''engagement_score'', ''opt_out''],
     required_event_fields =
       [''event_id'', ''title'', ''start_date'', ''tags'', ''organizer'', ''metadata''],
     required_metadata_fields = [''amount_range'', ''application_deadline''],
     topic_match_medium = 1,
     engagement_high = 7 / 10,
     engagement_low = 5 / 10 \<rparr>"

definition missing_fields :: "string \<Rightarrow> string list \<Rightarrow> pydict \<Rightarrow> string list" where
  "missing_fields prefix fs d =
     map (\<lambda>f. prefix @ f) (filter (\<lambda>f. f \<notin> set (map fst d)) fs)"

definition validate_recipient :: "pydict \<Rightarrow> string list" where
  "validate_recipient recipient =
     missing_fields ''Missing recipient field: '' (required_recipient_fields VALIDATION_RULES) recipient
     @ (case map_of recipient ''topics'' of
          None \<Rightarrow> []
        | Some t \<Rightarrow> if is_list t then [] else [''recipient.topics must be a list''])"

fun missing_metadata :: "string list \<Rightarrow> json \<Rightarrow> error + string list" where
  "missing_metadata [] md = Inr []"
| "missing_metadata (m # ms) md =
     ebind (py_in m md) (\<lambda>present.
     ebind (missing_metadata ms md) (\<lambda>rest.
       Inr ((if present then [] else [''Missing event.metadata field: '' @ m]) @ rest)))"

definition validate_event :: "pydict \<Rightarrow> error + string list" where
  "validate_event event =
     ebind (case map_of event ''metadata'' of
              None \<Rightarrow> Inr []
            | Some md \<Rightarrow> missing_metadata (required_metadata_fields VALIDATION_RULES) md)
       (\<lambda>md_errors.
         Inr (missing_fields ''Missing event field: '' (required_event_fields VALIDATION_RULES) event
              @ md_errors
              @ (case map_of event ''tags'' of
                   None \<Rightarrow> []
                 | Some t \<Rightarrow> if is_list t then [] else [''event.tags must be a list''])))"

section \<open>brain.py: deadline and topic overlap\<close>

text \<open>\<open>dt.astimezone(timezone.utc)\<close>: datetime arithmetic raises \<open>OverflowError\<close> outside the
  years 1 to 9999.\<close>

definition astimezone_utc :: "int \<Rightarrow> int \<Rightarrow> string + int" where
  "astimezone_utc w off =
     (if - 62135596800000000 \<le> w - off \<and> w - off \<le> 253402300799999999
      then Inr (w - off) else Inl ''date value out of range'')"

text \<open>The body of the \<open>try\<close> up to the comparison: parse, localize a naive value to IST,
  convert to UTC.  \<open>Inl\<close> is the text of the exception the \<open>except\<close> clause catches.\<close>

definition deadline_utc :: "env \<Rightarrow> json \<Rightarrow> string + int" where
  "deadline_utc E deadline_str =
     (case dateparse E deadline_str of
        Inl msg \<Rightarrow> Inl msg
      | Inr dt \<Rightarrow>
          (case tzoffset dt of
             None \<Rightarrow> (case ist_localize E (wall dt) of
                        Inl msg \<Rightarrow> Inl msg
                      | Inr off \<Rightarrow> astimezone_utc (wall dt) off)
           | Some off \<Rightarrow> astimezone_utc (wall dt) off))"

definition is_deadline_passed :: "env \<Rightarrow> json \<Rightarrow> bool \<times> string option" where
  "is_deadline_passed E deadline_str =
     (case deadline_utc E deadline_str of
        Inr dt \<Rightarrow> (now_utc E > dt, None)
      | Inl msg \<Rightarrow> (False, Some (''Invalid deadline format: '' @ msg)))"

fun str_items :: "json list \<Rightarrow> error + string list" where
  "str_items [] = Inr []"
| "str_items (x # xs) =
     (case x of
        JStr s \<Rightarrow> ebind (str_items xs) (\<lambda>ss. Inr (s # ss))
      | _ \<Rightarrow> Inl AttributeError)"

definition topic_key :: "string \<Rightarrow> string" where
  "topic_key t = lower (strip t)"

definition topic_overlap :: "json \<Rightarrow> json \<Rightarrow> error + string list" where
  "topic_overlap recipient_topics event_tags =
     ebind (ebind (py_iter recipient_topics) str_items) (\<lambda>rs.
     ebind (ebind (py_iter event_tags) str_items) (\<lambda>es.
       Inr (sort (filter (\<lambda>t. topic_key t \<in> set (map topic_key es)) rs))))"

section \<open>brain.py: the eligibility decision\<close>

type_synonym decision = "bool \<times> string \<times> string list"

definition str_list :: "string list \<Rightarrow> json" where
  "str_list ss = JList (map JStr ss)"

definition check_topics :: "env \<Rightarrow> pydict \<Rightarrow> pydict \<Rightarrow> string list \<Rightarrow> error + decision" where
  "check_topics E recipient event warnings =
     ebind (topic_overlap (get_default recipient ''topics'' (JList []))
                          (get_default event ''tags'' (JList []))) (\<lambda>overlap.
       if length overlap < topic_match_medium VALIDATION_RULES
       then Inr (False, ''no_topic_match'',
              [''Insufficient topic overlap. ''
               @ ''Recipient: '' @ py_str E (get_default recipient ''topics'' (JList [])) @ '' | ''
               @ ''Event: '' @ py_str E (get_default event ''tags'' (JList [])) @ '' | ''
               @ ''Overlap: '' @ py_str E (str_list overlap)])
       else Inr (True, ''approved'', warnings))"

definition should_send_email :: "env \<Rightarrow> pydict \<Rightarrow> pydict \<Rightarrow> error + decision" where
  "should_send_email E recipient event =
     (let r_errors = validate_recipient recipient in
      ebind (validate_event event) (\<lambda>e_errors.
        let warnings = r_errors @ e_errors in
        if r_errors \<noteq> [] \<or> e_errors \<noteq> [] then Inr (False, ''validation_failed'', warnings)
        else if truthy (get_default recipient ''opt_out'' (JBool False))
        then Inr (False, ''opted_out'', [''Recipient has opted out - DO NOT SEND''])
        else
          ebind (attr_get (get_default event ''metadata'' (JObj [])) ''application_deadline'' JNull)
            (\<lambda>deadline.
              if truthy deadline then
                (case is_deadline_passed E deadline of
                   (passed, Some err) \<Rightarrow>
                     if err \<noteq> [] then check_topics E recipient event (warnings @ [err])
                     else if passed
                     then Inr (False, ''deadline_passed'',
                            [''Application deadline has passed - DO NOT SEND''])
                     else check_topics E recipient event warnings
                 | (passed, None) \<Rightarrow>
                     if passed
                     then Inr (False, ''deadline_passed'',
                            [''Application deadline has passed - DO NOT SEND''])
                     else check_topics E recipient event warnings)
              else check_topics E recipient event warnings)))"

section \<open>brain.py: content generation\<close>

definition tone_from_engagement :: "json \<Rightarrow> error + string" where
  "tone_from_engagement score =
     (case (case score of
              JNum q \<Rightarrow> Some q
            | JBool b \<Rightarrow> Some (if b then 1 else 0)
            | _ \<Rightarrow> None) of
        None \<Rightarrow> Inl TypeError
      | Some q \<Rightarrow>
          Inr (if q \<ge> engagement_high VALIDATION_RULES then ''enthusiastic''
               else if q \<ge> engagement_low VALIDATION_RULES then ''professional''
               else ''gentle''))"

abbreviation nl :: string where
  "nl \<equiv> [CHR 0x0A]"

definition generate_simple_body :: "env \<Rightarrow> pydict \<Rightarrow> pydict \<Rightarrow> string \<Rightarrow> error + string" where
  "generate_simple_body E recipient event day_number =
     (let name = get_default recipient ''name'' (JStr ''there'');
          title = get_default event ''title'' (JStr ''this opportunity'');
          organizer = get_default event ''organizer'' (JStr ''the organizer'')
      in
      ebind (attr_get (get_default event ''metadata'' (JObj [])) ''amount_range'' (JStr ''[amount]''))
        (\<lambda>amount.
      ebind (attr_get (get_default event ''metadata'' (JObj [])) ''application_deadline''
               (JStr ''[deadline]''))
        (\<lambda>deadline.
        Inr (''Hi '' @ py_str E name @ '','' @ nl @ nl
             @ ''I wanted to share '' @ py_str E title @ '' organised by '' @ py_str E organizer
             @ ''.'' @ nl @ nl
             @ ''Grant amount: '' @ py_str E amount @ nl
             @ ''Application deadline: '' @ py_str E deadline @ nl @ nl
             @ ''This may be relevant for your work at ''
             @ py_str E (get_default recipient ''organization'' (JStr ''your organization''))
             @ ''.'' @ nl @ nl
             @ ''Best regards,'' @ nl @ nl
             @ ''Priya Singh'' @ nl
             @ ''Grants Coordinator'' @ nl
             @ ''Funding Forward''))))"

definition fallback_email :: "env \<Rightarrow> pydict \<Rightarrow> pydict \<Rightarrow> string \<Rightarrow> string \<Rightarrow> error + json" where
  "fallback_email E recipient event day_number err =
     ebind (generate_simple_body E recipient event day_number) (\<lambda>body.
       Inr (JObj
         [(''internal_reasoning'', JObj
             [(''email_type'', JStr ''Fallback''),
              (''error'', JStr err),
              (''match_decision'', JStr ''send'')]),
          (''email'', JObj
             [(''subject'', JStr (py_str E (get_none event ''title'') @ '' - Opportunity for ''
                                  @ py_str E (get_none recipient ''organization''))),
              (''body'', JStr body)]),
          (''verification'', JObj
             [(''all_data_from_json'', JBool True),
              (''fallback_used'', JBool True)]),
          (''warnings'', JList [JStr (''Used fallback due to: '' @ err)])]))"

text \<open>\<open>GroqEmailGenerator.generate_email_content\<close>: the body of its \<open>try\<close> (prompt,
  request, cleaning and parsing of the reply) is the external \<open>ai_outcome\<close>; the two
  \<open>except\<close> clauses are the code's.\<close>

definition generate_email_content :: "env \<Rightarrow> pydict \<Rightarrow> pydict \<Rightarrow> string \<Rightarrow> error + json" where
  "generate_email_content E recipient event day_number =
     (case ai_outcome E of
        Parsed reply \<Rightarrow> Inr reply
      | JSONDecodeError e \<Rightarrow>
          fallback_email E recipient event day_number (''JSON parse error: '' @ e)
      | OtherError e \<Rightarrow>
          fallback_email E recipient event day_number (''API error: '' @ e))"

section \<open>brain.py: one pair\<close>

text \<open>\<open>x[k] = v\<close> and \<open>x[k]\<close> for a string key, and \<open>xs + ys\<close> for a list \<open>xs\<close>.\<close>

definition set_item :: "json \<Rightarrow> string \<Rightarrow> json \<Rightarrow> error + json" where
  "set_item x k v = (case x of JObj d \<Rightarrow> Inr (JObj (AList.update k v d)) | _ \<Rightarrow> Inl TypeError)"


definition list_plus :: "string list \<Rightarrow> json \<Rightarrow> error + json" where
  "list_plus ws x = (case x of JList ys \<Rightarrow> Inr (JList (map JStr ws @ ys)) | _ \<Rightarrow> Inl TypeError)"

definition blocked_record :: "pydict \<Rightarrow> pydict \<Rightarrow> string \<Rightarrow> string \<Rightarrow> string list \<Rightarrow> error + json" where
  "blocked_record recipient event day_number reason warnings =
     ebind (topic_overlap (get_default recipient ''topics'' (JList []))
                          (get_default event ''tags'' (JList []))) (\<lambda>overlap.
       Inr (JObj
         [(''meta'', JObj
             [(''recipient_id'', get_none recipient ''recipient_id''),
              (''event_id'', get_none event ''event_id''),
              (''day'', JStr day_number),
              (''status'', JStr ''blocked''),
              (''reason'', JStr reason)]),
          (''internal_reasoning'', JObj
             [(''email_type'', JStr ''N/A''),
              (''match_decision'', JStr reason),
              (''recipient_topics'', get_default recipient ''topics'' (JList [])),
              (''event_tags'', get_default event ''tags'' (JList [])),
              (''topic_overlap'', str_list overlap)]),
          (''email'', JNull),
          (''verification'', JNull),
          (''warnings'', str_list warnings)]))"

definition add_metadata :: "env \<Rightarrow> pydict \<Rightarrow> pydict \<Rightarrow> string \<Rightarrow> string list \<Rightarrow> json \<Rightarrow> error + json" where
  "add_metadata E recipient event day_number warnings result =
     ebind (tone_from_engagement (get_default recipient ''engagement_score'' (JNum (5 / 10))))
       (\<lambda>tone.
     ebind (topic_overlap (get_default recipient ''topics'' (JList []))
                          (get_default event ''tags'' (JList []))) (\<lambda>overlap.
     ebind (set_item result ''meta'' (JObj
             [(''recipient_id'', get_none recipient ''recipient_id''),
              (''event_id'', get_none event ''event_id''),
              (''day'', JStr day_number),
              (''status'', JStr ''generated''),
              (''generated_at'', JStr (now_iso E)),
              (''tone'', JStr tone),
              (''topic_overlap'', str_list overlap)])) (\<lambda>result1.
     ebind (attr_get result1 ''warnings'' (JList [])) (\<lambda>reply_warnings.
     ebind (list_plus warnings reply_warnings) (\<lambda>all_warnings.
       set_item result1 ''warnings'' all_warnings)))))"

text \<open>The first component of the result tells whether the text-generation service was
  called (\<open>ai_generator.generate_email_content\<close>); \<open>ai_generator\<close> is whether a
  generator object was passed.\<close>

definition generate_email_for_pair ::
    "env \<Rightarrow> pydict \<Rightarrow> pydict \<Rightarrow> string \<Rightarrow> bool \<Rightarrow> bool \<Rightarrow> bool \<times> (error + json)" where
  "generate_email_for_pair E recipient event day_number ai_generator use_ai =
     (case should_send_email E recipient event of
        Inl e \<Rightarrow> (False, Inl e)
      | Inr (should_send, reason, warnings) \<Rightarrow>
          if \<not> should_send
          then (False, blocked_record recipient event day_number reason warnings)
          else if use_ai \<and> ai_generator
          then (True,
                ebind (case generate_email_content E recipient event day_number of
                         Inr reply \<Rightarrow> Inr reply
                       | Inl e \<Rightarrow> fallback_email E recipient event day_number (str_exc E e))
                  (add_metadata E recipient event day_number warnings))
          else (False,
                ebind (fallback_email E recipient event day_number ''AI disabled'')
                  (add_metadata E recipient event day_number warnings)))"

section \<open>brain.py: the batch\<close>









section \<open>src/core/generator.py\<close>

text \<open>
  \<open>VALIDATION_RULES\<close> and \<open>EMAIL_TYPES\<close> of this module come from
  \<open>src.templates.prompts\<close>, which is not among the sources: they are the parameters
  \<open>R\<close> and \<open>T\<close>.  \<open>llm\<close> is whether the generator holds a language-model client.
\<close>

definition create_metadata :: "env \<Rightarrow> pydict \<Rightarrow> pydict \<Rightarrow> string \<Rightarrow> string \<Rightarrow> json \<Rightarrow> json" where
  "create_metadata E recipient event day status reason =
     JObj [(''recipient_id'', get_none recipient ''recipient_id''),
           (''event_id'', get_none event ''event_id''),
           (''day'', JStr day),
           (''status'', JStr status),
           (''reason'', reason),
           (''generated_at'', JStr (now_iso E))]"

definition create_blocked_response ::
    "env \<Rightarrow> pydict \<Rightarrow> pydict \<Rightarrow> string \<Rightarrow> string \<Rightarrow> string list \<Rightarrow> json" where
  "create_blocked_response E recipient event day reason warnings =
     JObj [(''meta'', create_metadata E recipient event day ''blocked'' (JStr reason)),
           (''email'', JNull),
           (''warnings'', str_list warnings)]"

text \<open>\<open>{t.lower() for t in x}\<close>, as the list of its members.\<close>

definition lower_set :: "json \<Rightarrow> error + string list" where
  "lower_set x = ebind (ebind (py_iter x) str_items) (\<lambda>ss. Inr (remdups (map lower ss)))"

text \<open>The topic match that ends \<open>_validate_request\<close>.\<close>

definition match_topics ::
    "validation_rules \<Rightarrow> env \<Rightarrow> pydict \<Rightarrow> pydict \<Rightarrow> string list \<Rightarrow> error + decision" where
  "match_topics R E recipient event warnings =
     ebind (lower_set (get_default recipient ''topics'' (JList []))) (\<lambda>r_topics.
     ebind (lower_set (get_default event ''tags'' (JList []))) (\<lambda>e_tags.
       let overlap = filter (\<lambda>t. t \<in> set e_tags) r_topics in
       if length overlap < topic_match_medium R
       then Inr (False, ''no_topic_match'', [''Insufficient overlap: '' @ py_repr_set E overlap])
       else Inr (True, ''approved'', warnings)))"

definition validate_request :: "validation_rules \<Rightarrow> env \<Rightarrow> pydict \<Rightarrow> pydict \<Rightarrow> error + decision" where
  "validate_request R E recipient event =
     (let warnings =
            missing_fields ''Missing recipient field: '' (required_recipient_fields R) recipient
      in
      if truthy (get_default recipient ''opt_out'' (JBool False))
      then Inr (False, ''opted_out'', [''Recipient opted out''])
      else
        ebind (attr_get (get_default event ''metadata'' (JObj [])) ''application_deadline'' JNull)
          (\<lambda>deadline.
            if truthy deadline then
              (case deadline_utc E deadline of
                 Inr dt \<Rightarrow>
                   if now_utc E > dt then Inr (False, ''deadline_passed'', [''Deadline passed''])
                   else match_topics R E recipient event warnings
               | Inl msg \<Rightarrow>
                   match_topics R E recipient event (warnings @ [''Invalid deadline format'']))
            else match_topics R E recipient event warnings))"

subsection \<open>Fallback content\<close>

definition is_upper :: "char \<Rightarrow> bool" where
  "is_upper c = (let n = (of_char c :: nat) in 65 \<le> n \<and> n \<le> 90)"

definition is_lower :: "char \<Rightarrow> bool" where
  "is_lower c = (let n = (of_char c :: nat) in 97 \<le> n \<and> n \<le> 122)"

definition upper_char :: "char \<Rightarrow> char" where
  "upper_char c = (if is_lower c then char_of ((of_char c :: nat) - 32) else c)"

text \<open>\<open>str.title\<close>; the flag is whether the previous character was a letter.\<close>

fun title_from :: "bool \<Rightarrow> string \<Rightarrow> string" where
  "title_from prev [] = []"
| "title_from prev (c # cs) =
     (if is_lower c then (if prev then c else upper_char c) # title_from True cs
      else if is_upper c then (if prev then lower_char c else c) # title_from True cs
      else c # title_from False cs)"

definition replace_underscore :: "string \<Rightarrow> string" where
  "replace_underscore s = map (\<lambda>c. if c = CHR ''_'' then CHR '' '' else c) s"

text \<open>\<open>topics[0]\<close> of a truthy value.\<close>

definition first_item :: "json \<Rightarrow> error + json" where
  "first_item x =
     (case x of
        JList xs \<Rightarrow> (case xs of [] \<Rightarrow> Inl IndexError | y # ys \<Rightarrow> Inr y)
      | JStr s \<Rightarrow> (case s of [] \<Rightarrow> Inl IndexError | c # cs \<Rightarrow> Inr (JStr [c]))
      | JObj d \<Rightarrow> Inl KeyError
      | _ \<Rightarrow> Inl TypeError)"

abbreviation apos :: string where
  "apos \<equiv> [CHR 0x27]"

abbreviation alarm_clock :: string where
  "alarm_clock \<equiv> [CHR 0xE2, CHR 0x8F, CHR 0xB0]"

abbreviation red_circle :: string where
  "red_circle \<equiv> [CHR 0xF0, CHR 0x9F, CHR 0x94, CHR 0xB4]"

definition get_fallback_subject :: "env \<Rightarrow> pydict \<Rightarrow> pydict \<Rightarrow> string \<Rightarrow> error + string" where
  "get_fallback_subject E r e day =
     (let title = py_str E (get_default e ''title'' (JStr []));
          topics = get_default r ''topics'' (JList [JStr ''funding''])
      in
      ebind (if truthy topics
             then ebind (first_item topics) (\<lambda>t.
                    case t of
                      JStr s \<Rightarrow> Inr (title_from False (replace_underscore s))
                    | _ \<Rightarrow> Inl AttributeError)
             else Inr ''Funding'') (\<lambda>topic.
        Inr (case map_of
               [(''0'', ''You'' @ apos @ ''re in! Here'' @ apos @ ''s what to expect - '' @ title),
                (''1'', ''The #1 mistake that kills 97% of '' @ topic @ '' applications''),
                (''3'', ''Proof: Real organizations getting real grant money - '' @ title),
                (''5'', ''I get it... you'' @ apos @ ''re skeptical (but read this about ''
                        @ title @ '')''),
                (''6'', alarm_clock @ '' Tomorrow: Your '' @ topic @ '' funding breakthrough''),
                (''7a'', red_circle @ '' Going LIVE in 6 hours - '' @ title),
                (''7b'', alarm_clock @ '' Starting in 60 minutes (join now)'')] day of
               Some subject \<Rightarrow> subject
             | None \<Rightarrow> title @ '' - Opportunity'')))"

definition get_fallback_body :: "env \<Rightarrow> pydict \<Rightarrow> pydict \<Rightarrow> string \<Rightarrow> string" where
  "get_fallback_body E r e day =
     ''Hi '' @ py_str E (get_default r ''name'' (JStr ''there'')) @ '','' @ nl @ nl
     @ ''This is a fallback email for Day '' @ day @ '' regarding ''
     @ py_str E (get_none e ''title'') @ ''.'' @ nl @ nl
     @ ''Please check your API key configuration.'' @ nl @ nl
     @ ''Best,'' @ nl @ ''Priya''"

definition generate_fallback ::
    "pydict \<Rightarrow> env \<Rightarrow> pydict \<Rightarrow> pydict \<Rightarrow> string \<Rightarrow> string list \<Rightarrow> string \<Rightarrow> error + json" where
  "generate_fallback T E recipient event day_number warnings err =
     (let email_config = get_default T day_number (get_none T ''1'') in
      ebind (get_fallback_subject E recipient event day_number) (\<lambda>subject.
      let body = get_fallback_body E recipient event day_number in
      ebind (attr_get email_config ''type'' (JStr ''Custom'')) (\<lambda>email_type.
      ebind (attr_get email_config ''principle'' (JStr ''Personalized outreach'')) (\<lambda>principle.
        Inr (JObj
          [(''internal_reasoning'', JObj
              [(''email_type'', email_type),
               (''error'', JStr err),
               (''match_decision'', JStr ''send''),
               (''principle'', principle)]),
           (''email'', JObj [(''subject'', JStr subject), (''body'', JStr body)]),
           (''verification'', JObj
              [(''all_data_from_json'', JBool True),
               (''fallback_used'', JBool True),
               (''personalization_fields'', JObj
                  [(''name'', get_none recipient ''name''),
                   (''email'', get_none recipient ''email''),
                   (''organization'', get_none recipient ''organization'')])]),
           (''warnings'',
              str_list (warnings @ (if err \<noteq> [] then [''Used fallback: '' @ err] else []))),
           (''meta'', create_metadata E recipient event day_number ''generated'' JNull)])))))"

subsection \<open>Generation\<close>

text \<open>\<open>_generate_with_ai\<close>: \<open>Inl\<close> is \<open>str(e)\<close> of the exception that leaves the method;
  \<open>generate_email\<close> catches it.  Prompt, request and parsing are the external
  \<open>ai_outcome\<close>.\<close>

definition generate_with_ai ::
    "pydict \<Rightarrow> env \<Rightarrow> pydict \<Rightarrow> pydict \<Rightarrow> string \<Rightarrow> string list \<Rightarrow> string + json" where
  "generate_with_ai T E recipient event day_number warnings =
     (case ai_outcome E of
        OtherError e \<Rightarrow> Inl e
      | JSONDecodeError e \<Rightarrow>
          (case generate_fallback T E recipient event day_number warnings
                  (''JSON parse error: '' @ e) of
             Inl ex \<Rightarrow> Inl (str_exc E ex)
           | Inr result \<Rightarrow> Inr result)
      | Parsed reply \<Rightarrow>
          (case ebind (set_item reply ''meta''
                         (create_metadata E recipient event day_number ''generated'' JNull))
                  (\<lambda>result1.
                ebind (attr_get result1 ''warnings'' (JList [])) (\<lambda>reply_warnings.
                ebind (list_plus warnings reply_warnings) (\<lambda>all_warnings.
                  set_item result1 ''warnings'' all_warnings))) of
             Inl ex \<Rightarrow> Inl (str_exc E ex)
           | Inr result \<Rightarrow> Inr result))"

text \<open>\<open>EmailGenerator.generate_email\<close>; the first component of the result tells whether
  the language model was asked.\<close>

definition generate_email ::
    "validation_rules \<Rightarrow> pydict \<Rightarrow> env \<Rightarrow> bool \<Rightarrow> pydict \<Rightarrow> pydict \<Rightarrow> string
     \<Rightarrow> bool \<times> (error + json)" where
  "generate_email R T E llm recipient event day_number =
     (case validate_request R E recipient event of
        Inl e \<Rightarrow> (False, Inl e)
      | Inr (should_send, reason, warnings) \<Rightarrow>
          if \<not> should_send
          then (False, Inr (create_blocked_response E recipient event day_number reason warnings))
          else if llm
          then (True,
                case generate_with_ai T E recipient event day_number warnings of
                  Inr result \<Rightarrow> Inr result
                | Inl msg \<Rightarrow> generate_fallback T E recipient event day_number warnings msg)
          else (False,
                generate_fallback T E recipient event day_number warnings ''AI disabled''))"

section \<open>main.py: hand-off to delivery\<close>



section \<open>src/core/sender.py\<close>

record config =
  RATE_LIMIT :: int
  BATCH_SIZE :: int
  BATCH_PAUSE :: int
  MAX_RETRIES :: int
  RETRY_DELAY :: int

record send_stats =
  attempted :: nat
  sent :: nat
  failed :: nat
  skipped :: nat

text \<open>The counters of a new \<open>EmailSender\<close>.\<close>

definition init_stats :: send_stats where
  "init_stats = \<lparr> attempted = 0, sent = 0, failed = 0, skipped = 0 \<rparr>"

text \<open>\<open>time.sleep\<close> raises \<open>ValueError\<close> on a negative length.\<close>

definition sleep_raises :: "rat \<Rightarrow> bool" where
  "sleep_raises secs = (secs < 0)"

text \<open>The retry loop of \<open>_send_single_with_retry\<close> over the attempts that remain.
  \<open>send_fails attempt\<close> is the text of the exception raised while building and sending
  the message at that attempt, if any.\<close>

fun retry_loop :: "config \<Rightarrow> (int \<Rightarrow> string option) \<Rightarrow> int list \<Rightarrow> error + bool \<times> string option" where
  "retry_loop C send_fails [] = Inr (False, Some ''Max retries exceeded'')"
| "retry_loop C send_fails (attempt # attempts) =
     (case send_fails attempt of
        None \<Rightarrow> Inr (True, None)
      | Some e \<Rightarrow>
          if attempt < MAX_RETRIES C
          then (if sleep_raises (of_int (RETRY_DELAY C)) then Inl ValueError
                else retry_loop C send_fails attempts)
          else Inr (False, Some e))"

definition send_single_with_retry ::
    "config \<Rightarrow> bool \<Rightarrow> (int \<Rightarrow> string option) \<Rightarrow> error + bool \<times> string option" where
  "send_single_with_retry C dry_run send_fails =
     (if dry_run then Inr (True, None)
      else retry_loop C send_fails [1 .. MAX_RETRIES C])"

text \<open>The pause after an email that was sent or has failed.\<close>

definition rate_limit :: "config \<Rightarrow> bool \<Rightarrow> int \<Rightarrow> int \<Rightarrow> error option" where
  "rate_limit C dry_run idx n =
     (if \<not> dry_run \<and> idx < n then
        (if BATCH_SIZE C = 0 then Some ZeroDivisionError
         else if idx mod BATCH_SIZE C = 0
         then (if sleep_raises (of_int (BATCH_PAUSE C)) then Some ValueError else None)
         else if sleep_raises (if RATE_LIMIT C > 0 then 60 / of_int (RATE_LIMIT C) else 0)
         then Some ValueError
         else None)
      else None)"

text \<open>The loop of \<open>send_batch\<close> from the email of index \<open>idx\<close> on; \<open>n\<close> is \<open>len(emails)\<close>
  and \<open>send_fails idx attempt\<close> the outcome of an attempt for the email of that index.
  The result is the exception that leaves the loop, if any, with the counters as the
  loop leaves them.\<close>

fun send_loop ::
    "config \<Rightarrow> bool \<Rightarrow> (int \<Rightarrow> int \<Rightarrow> string option) \<Rightarrow> int \<Rightarrow> int \<Rightarrow> pydict list \<Rightarrow> send_stats
     \<Rightarrow> error option \<times> send_stats" where
  "send_loop C dry_run send_fails n idx [] st = (None, st)"
| "send_loop C dry_run send_fails n idx (email_data # emails) st =
     (let st1 = st\<lparr>attempted := attempted st + 1\<rparr>;
          to_email = get_none email_data ''recipient_email'';
          subject = get_none email_data ''subject'';
          body = get_none email_data ''body''
      in
      if \<not> truthy to_email \<or> \<not> truthy subject \<or> \<not> truthy body
      then send_loop C dry_run send_fails n (idx + 1) emails (st1\<lparr>skipped := skipped st1 + 1\<rparr>)
      else
        (case send_single_with_retry C dry_run (send_fails idx) of
           Inl e \<Rightarrow> (Some e, st1)
         | Inr (success, err) \<Rightarrow>
             let st2 = (if success then st1\<lparr>sent := sent st1 + 1\<rparr>
                        else st1\<lparr>failed := failed st1 + 1\<rparr>)
             in
             (case rate_limit C dry_run idx n of
                Some e \<Rightarrow> (Some e, st2)
              | None \<Rightarrow> send_loop C dry_run send_fails n (idx + 1) emails st2)))"

text \<open>\<open>EmailSender.send_batch\<close> on the counters \<open>st\<close> of the sender; \<open>smtp_ok\<close> is whether
  the SMTP connection can be made.\<close>

definition send_batch ::
    "config \<Rightarrow> bool \<Rightarrow> bool \<Rightarrow> (int \<Rightarrow> int \<Rightarrow> string option) \<Rightarrow> pydict list \<Rightarrow> send_stats
     \<Rightarrow> error option \<times> send_stats" where
  "send_batch C dry_run smtp_ok send_fails emails st =
     (if emails = [] then (None, st)
      else if \<not> dry_run \<and> \<not> smtp_ok then (None, st)
      else send_loop C dry_run send_fails (int (length emails)) 1 emails st)"

section \<open>Reading result records\<close>

text \<open>The field \<open>k\<close> of a record's \<open>meta\<close> dictionary, and a top-level field of the record;
  \<open>present\<close> says that a field is there and is not \<open>None\<close>.\<close>

definition meta_field :: "json \<Rightarrow> string \<Rightarrow> json option" where
  "meta_field rec k =
     (case rec of
        JObj d \<Rightarrow> (case map_of d ''meta'' of Some (JObj m) \<Rightarrow> map_of m k | _ \<Rightarrow> None)
      | _ \<Rightarrow> None)"

definition top_field :: "json \<Rightarrow> string \<Rightarrow> json option" where
  "top_field rec k = (case rec of JObj d \<Rightarrow> map_of d k | _ \<Rightarrow> None)"

definition present :: "json option \<Rightarrow> bool" where
  "present v = (v \<noteq> None \<and> v \<noteq> Some JNull)"

text \<open>The same for the outcome of a per-pair function, when it returned a record.\<close>

definition result_meta :: "bool \<times> (error + json) \<Rightarrow> string \<Rightarrow> json option" where
  "result_meta res k = (case snd res of Inr rec \<Rightarrow> meta_field rec k | Inl e \<Rightarrow> None)"

definition result_top :: "bool \<times> (error + json) \<Rightarrow> string \<Rightarrow> json option" where
  "result_top res k = (case snd res of Inr rec \<Rightarrow> top_field rec k | Inl e \<Rightarrow> None)"

section \<open>Sample data\<close>

text \<open>A world in which two deadline strings parse (a naive date in 2020 and an aware one
  in 2099), the clock reads 2026-11-04T00:00:00Z and the text-generation service is
  unreachable; a complete recipient and event whose topics overlap; and variations.\<close>

fun join_with :: "string \<Rightarrow> string list \<Rightarrow> string" where
  "join_with sep [] = []"
| "join_with sep [s] = s"
| "join_with sep (s # t # ss) = s @ sep @ join_with sep (t # ss)"

text \<open>What Python prints for a list of plain strings (no quotes or escapes in them).\<close>

definition sample_repr :: "json \<Rightarrow> string" where
  "sample_repr x =
     (case x of
        JList xs \<Rightarrow>
          ''['' @ join_with '', ''
                   (map (\<lambda>y. case y of JStr s \<Rightarrow> [CHR 0x27] @ s @ [CHR 0x27] | _ \<Rightarrow> ''...'') xs)
          @ '']''
      | _ \<Rightarrow> ''...'')"

definition sample_env :: env where
  "sample_env = \<lparr>
     dateparse = (\<lambda>d.
        if d = JStr ''2020-01-01'' then Inr \<lparr> wall = 1577836800000000, tzoffset = None \<rparr>
        else if d = JStr ''2099-01-01T00:00:00+00:00''
        then Inr \<lparr> wall = 4070908800000000, tzoffset = Some 0 \<rparr>
        else Inl ''String does not contain a date''),
     ist_localize = (\<lambda>w. Inr 19800000000),
     now_utc = 1793750400000000,
     now_iso = ''2026-11-04T05:30:00+05:30'',
     py_repr = sample_repr,
     py_repr_set = (\<lambda>xs. if xs = [] then ''set()'' else ''{...}''),
     ai_outcome = OtherError ''Connection error.'',
     str_exc = (\<lambda>e. ''error'') \<rparr>"

definition sample_recipient :: pydict where
  "sample_recipient =
     [(''recipient_id'', JStr ''r1''),
      (''name'', JStr ''Asha Rao''),
      (''email'', JStr ''asha@example.org''),
      (''organization'', JStr ''Green Trust''),
      (''topics'', JList [JStr ''Climate_Action'', JStr '' health '']),
      (''engagement_score'', JNum (9 / 10)),
      (''opt_out'', JBool False)]"

definition sample_event :: pydict where
  "sample_event =
     [(''event_id'', JStr ''e1''),
      (''title'', JStr ''Climate Resilience Grant''),
      (''start_date'', JStr ''2026-12-01''),
      (''tags'', JList [JStr ''climate_action'', JStr ''HEALTH'']),
      (''organizer'', JStr ''Funding Forward''),
      (''metadata'', JObj
         [(''amount_range'', JStr ''10k-50k''),
          (''application_deadline'', JStr ''2099-01-01T00:00:00+00:00'')])]"

text \<open>The sample recipient once opted out, and an opted-out recipient whose record lacks
  \<open>organization\<close>, \<open>topics\<close> and \<open>engagement_score\<close>.\<close>

definition opted_out_recipient :: pydict where
  "opted_out_recipient = AList.update ''opt_out'' (JBool True) sample_recipient"



definition blank_deadline_event :: pydict where
  "blank_deadline_event =
     AList.update ''metadata''
       (JObj [(''amount_range'', JStr ''10k-50k''), (''application_deadline'', JStr [])])
       sample_event"

definition past_deadline_event :: pydict where
  "past_deadline_event =
     AList.update ''metadata''
       (JObj [(''amount_range'', JStr ''10k-50k''), (''application_deadline'', JStr ''2020-01-01'')])
       sample_event"


section \<open>Reading sendable entries\<close>

text \<open>An entry that \<open>send_batch\<close> passes on to the sending of one message: none of its
  address, subject and body is missing or empty.\<close>

definition deliverable :: "pydict \<Rightarrow> bool" where
  "deliverable email_data =
     (truthy (get_none email_data ''recipient_email'')
      \<and> truthy (get_none email_data ''subject'')
      \<and> truthy (get_none email_data ''body''))"

text \<open>The defaults of \<open>src/utils/config.py\<close>; a generated record whose \<open>verification\<close> has
  no \<open>personalization_fields\<close>, as the fallback of brain.py builds it; the sendable entry
  made from it; and the same entry with an address.\<close>

definition default_config :: config where
  "default_config = \<lparr> RATE_LIMIT = 10, BATCH_SIZE = 50, BATCH_PAUSE = 60,
                       MAX_RETRIES = 3, RETRY_DELAY = 5 \<rparr>"


definition no_address_entry :: pydict where
  "no_address_entry =
     [(''recipient_email'', JNull),
      (''recipient_name'', JNull),
      (''subject'', JStr ''Climate Resilience Grant - Opportunity for Green Trust''),
      (''body'', JStr ''Hi Asha Rao,''),
      (''meta'', JObj [(''recipient_id'', JStr ''r1''), (''event_id'', JStr ''e1''),
                      (''day'', JStr ''1''), (''status'', JStr ''generated'')])]"

definition addressed_entry :: pydict where
  "addressed_entry = AList.update ''recipient_email'' (JStr ''asha@example.org'') no_address_entry"

text \<open>A world whose service answers with a JSON object that has no \<open>email\<close>.\<close>

definition no_email_reply_env :: env where
  "no_email_reply_env = sample_env\<lparr>ai_outcome := Parsed (JObj [(''warnings'', JList [])])\<rparr>"

section \<open>Basic facts\<close>

lemma ebind_Inr [simp]: "ebind (Inr x) f = f x"
  by (simp add: ebind_def)

lemma ebind_Inl [simp]: "ebind (Inl e) f = Inl e"
  by (simp add: ebind_def)

lemma ebind_eq_Inr: "ebind m f = Inr y \<longleftrightarrow> (\<exists>x. m = Inr x \<and> f x = Inr y)"
  by (cases m) simp_all


lemma set_item_Inr:
  "set_item x k v = Inr y \<longleftrightarrow> (\<exists>d. x = JObj d \<and> y = JObj (AList.update k v d))"
  by (cases x) (auto simp add: set_item_def)

lemma meta_field_JObj:
  "meta_field (JObj d) k = (case map_of d ''meta'' of Some (JObj m) \<Rightarrow> map_of m k | _ \<Rightarrow> None)"
  by (simp add: meta_field_def)

lemma top_field_JObj: "top_field (JObj d) k = map_of d k"
  by (simp add: top_field_def)

lemma str_items_strs [simp]: "str_items (map JStr ss) = Inr ss"
  by (induction ss) simp_all


section \<open>Facts about the eligibility decision of brain.py\<close>

lemma check_topics_cases:
  assumes "check_topics E r e ws = Inr (s, reason, ws')"
  shows "(\<not> s \<and> reason = ''no_topic_match'') \<or> (s \<and> reason = ''approved'' \<and> ws' = ws)"
  using assms by (auto simp add: check_topics_def ebind_eq_Inr split: if_splits)




section \<open>Facts about the records of brain.py\<close>

lemma add_metadata_fields:
  assumes "add_metadata E r e day ws result = Inr rec"
  shows "meta_field rec ''status'' = Some (JStr ''generated'')"
    and "meta_field rec ''reason'' = None"
    and "meta_field rec ''generated_at'' = Some (JStr (now_iso E))"
    and "top_field rec ''email'' = top_field result ''email''"
  using assms
  by (auto simp add: add_metadata_def ebind_eq_Inr set_item_Inr meta_field_JObj top_field_JObj
      update_conv')

lemma blocked_record_fields:
  assumes "blocked_record r e day reason ws = Inr rec"
  shows "meta_field rec ''status'' = Some (JStr ''blocked'')"
    and "meta_field rec ''reason'' = Some (JStr reason)"
    and "meta_field rec ''generated_at'' = None"
    and "top_field rec ''email'' = Some JNull"
  using assms
  by (auto simp add: blocked_record_def ebind_eq_Inr meta_field_JObj top_field_JObj)

lemma fallback_email_fields:
  assumes "fallback_email E r e day err = Inr res"
  shows "\<exists>s b. top_field res ''email'' = Some (JObj [(''subject'', JStr s), (''body'', JStr b)])"
  using assms by (auto simp add: fallback_email_def ebind_eq_Inr top_field_JObj)

lemma content_email:
  assumes "(case generate_email_content E r e day of
              Inr reply \<Rightarrow> Inr reply
            | Inl ex \<Rightarrow> fallback_email E r e day (str_exc E ex)) = Inr res"
  shows "present (top_field res ''email'')
         \<or> (\<exists>reply. ai_outcome E = Parsed reply \<and> res = reply)"
proof (cases "ai_outcome E")
  case (Parsed reply)
  then show ?thesis
    using assms by (simp add: generate_email_content_def)
next
  case (JSONDecodeError m)
  then have "\<exists>err. fallback_email E r e day err = Inr res"
    using assms by (auto simp add: generate_email_content_def split: sum.splits)
  then show ?thesis
    using fallback_email_fields by (fastforce simp add: present_def)
next
  case (OtherError m)
  then have "\<exists>err. fallback_email E r e day err = Inr res"
    using assms by (auto simp add: generate_email_content_def split: sum.splits)
  then show ?thesis
    using fallback_email_fields by (fastforce simp add: present_def)
qed

lemma pair_record_fields:
  assumes "generate_email_for_pair E r e day ai use_ai = (c, Inr rec)"
  shows "(meta_field rec ''status'' = Some (JStr ''blocked'')
            \<and> present (meta_field rec ''reason'')
            \<and> \<not> present (meta_field rec ''generated_at'')
            \<and> \<not> present (top_field rec ''email''))
         \<or> (meta_field rec ''status'' = Some (JStr ''generated'')
            \<and> \<not> present (meta_field rec ''reason'')
            \<and> present (meta_field rec ''generated_at'')
            \<and> (present (top_field rec ''email'')
                \<or> (c \<and> (\<exists>reply. ai_outcome E = Parsed reply
                          \<and> top_field rec ''email'' = top_field reply ''email''))))"
proof (cases "should_send_email E r e")
  case (Inl ex)
  then show ?thesis
    using assms by (simp add: generate_email_for_pair_def)
next
  case (Inr d)
  obtain s reason ws where d: "d = (s, reason, ws)"
    by (cases d) auto
  show ?thesis
  proof (cases s)
    case False
    then have "blocked_record r e day reason ws = Inr rec"
      using assms Inr d by (simp add: generate_email_for_pair_def)
    from blocked_record_fields[OF this] show ?thesis
      by (simp add: present_def)
  next
    case True
    show ?thesis
    proof (cases "use_ai \<and> ai")
      case True
      with \<open>s\<close> assms Inr d obtain res where
        res: "(case generate_email_content E r e day of
              Inr reply \<Rightarrow> Inr reply
            | Inl ex \<Rightarrow> fallback_email E r e day (str_exc E ex)) = Inr res"
        and add: "add_metadata E r e day ws res = Inr rec" and c: "c"
        by (auto simp add: generate_email_for_pair_def ebind_eq_Inr)
      from add_metadata_fields[OF add] content_email[OF res] c show ?thesis
        by (auto simp add: present_def)
    next
      case False
      with \<open>s\<close> assms Inr d obtain res where
        res: "fallback_email E r e day ''AI disabled'' = Inr res"
        and add: "add_metadata E r e day ws res = Inr rec"
        by (auto simp add: generate_email_for_pair_def ebind_eq_Inr)
      from add_metadata_fields[OF add] fallback_email_fields[OF res] show ?thesis
        by (auto simp add: present_def)
    qed
  qed
qed

section \<open>Facts about the records of src/core/generator.py\<close>

lemma create_metadata_fields:
  "meta_field (JObj ((''meta'', create_metadata E r e day status reason) # rest)) ''status''
     = Some (JStr status)"
  "meta_field (JObj ((''meta'', create_metadata E r e day status reason) # rest)) ''reason''
     = Some reason"
  "meta_field (JObj ((''meta'', create_metadata E r e day status reason) # rest)) ''generated_at''
     = Some (JStr (now_iso E))"
  by (simp_all add: meta_field_JObj create_metadata_def)

lemma generate_fallback_fields:
  assumes "generate_fallback T E r e day ws err = Inr rec"
  shows "meta_field rec ''status'' = Some (JStr ''generated'')"
    and "meta_field rec ''reason'' = Some JNull"
    and "meta_field rec ''generated_at'' = Some (JStr (now_iso E))"
    and "present (top_field rec ''email'')"
  using assms
  by (auto simp add: generate_fallback_def Let_def ebind_eq_Inr meta_field_JObj top_field_JObj
      create_metadata_def present_def)

lemma generate_with_ai_fields:
  assumes "generate_with_ai T E r e day ws = Inr rec"
  shows "meta_field rec ''status'' = Some (JStr ''generated'')"
    and "meta_field rec ''reason'' = Some JNull"
    and "meta_field rec ''generated_at'' = Some (JStr (now_iso E))"
    and "present (top_field rec ''email'')
         \<or> (\<exists>reply. ai_outcome E = Parsed reply
              \<and> top_field rec ''email'' = top_field reply ''email'')"
proof -
  show "meta_field rec ''status'' = Some (JStr ''generated'')"
    using assms generate_fallback_fields(1)
    by (auto simp add: generate_with_ai_def ebind_eq_Inr set_item_Inr meta_field_JObj
        update_conv' create_metadata_def split: provider_outcome.splits sum.splits)
  show "meta_field rec ''reason'' = Some JNull"
    using assms generate_fallback_fields(2)
    by (auto simp add: generate_with_ai_def ebind_eq_Inr set_item_Inr meta_field_JObj
        update_conv' create_metadata_def split: provider_outcome.splits sum.splits)
  show "meta_field rec ''generated_at'' = Some (JStr (now_iso E))"
    using assms generate_fallback_fields(3)
    by (auto simp add: generate_with_ai_def ebind_eq_Inr set_item_Inr meta_field_JObj
        update_conv' create_metadata_def split: provider_outcome.splits sum.splits)
  show "present (top_field rec ''email'')
         \<or> (\<exists>reply. ai_outcome E = Parsed reply
              \<and> top_field rec ''email'' = top_field reply ''email'')"
    using assms generate_fallback_fields(4)
    by (auto simp add: generate_with_ai_def ebind_eq_Inr set_item_Inr top_field_JObj
        update_conv' split: provider_outcome.splits sum.splits)
qed

lemma generator_record_fields:
  assumes "generate_email R T E llm r e day = (c, Inr rec)"
  shows "present (meta_field rec ''generated_at'')
         \<and> ((meta_field rec ''status'' = Some (JStr ''blocked'')
               \<and> present (meta_field rec ''reason'')
               \<and> \<not> present (top_field rec ''email''))
            \<or> (meta_field rec ''status'' = Some (JStr ''generated'')
               \<and> \<not> present (meta_field rec ''reason'')
               \<and> (present (top_field rec ''email'')
                   \<or> (c \<and> (\<exists>reply. ai_outcome E = Parsed reply
                             \<and> top_field rec ''email'' = top_field reply ''email'')))))"
proof (cases "validate_request R E r e")
  case (Inl ex)
  then show ?thesis
    using assms by (simp add: generate_email_def)
next
  case (Inr d)
  obtain s reason ws where d: "d = (s, reason, ws)"
    by (cases d) auto
  show ?thesis
  proof (cases s)
    case False
    then have "rec = create_blocked_response E r e day reason ws"
      using assms Inr d by (simp add: generate_email_def)
    then show ?thesis
      by (simp add: create_blocked_response_def create_metadata_fields top_field_JObj present_def)
  next
    case True
    show ?thesis
    proof (cases llm)
      case True
      show ?thesis
      proof (cases "generate_with_ai T E r e day ws")
        case (Inl msg)
        then have "generate_fallback T E r e day ws msg = Inr rec"
          using assms Inr d \<open>s\<close> \<open>llm\<close> by (simp add: generate_email_def)
        from generate_fallback_fields[OF this] show ?thesis
          by (simp add: present_def)
      next
        case (Inr res)
        then have "generate_with_ai T E r e day ws = Inr rec" and "c"
          using assms \<open>validate_request R E r e = Inr d\<close> d \<open>s\<close> \<open>llm\<close>
          by (simp_all add: generate_email_def)
        from generate_with_ai_fields[OF this(1)] this(2) show ?thesis
          by (auto simp add: present_def)
      qed
    next
      case False
      then have "generate_fallback T E r e day ws ''AI disabled'' = Inr rec"
        using assms Inr d \<open>s\<close> by (simp add: generate_email_def)
      from generate_fallback_fields[OF this] show ?thesis
        by (simp add: present_def)
    qed
  qed
qed

text \<open>A parsed reply is taken as it is: without an \<open>email\<close> in it, the generated record
  has none.\<close>

lemma parsed_reply_without_email:
  "result_meta (generate_email_for_pair no_email_reply_env sample_recipient sample_event ''1'' True True)
      ''status'' = Some (JStr ''generated'')
   \<and> result_top (generate_email_for_pair no_email_reply_env sample_recipient sample_event ''1'' True True)
      ''email'' = None"
  by code_simp

section \<open>Claims about the eligibility decision\<close>






section \<open>Claims about the result records\<close>

text \<open>
  Claim C3, as amended.  A record returned by \<open>generate_email_for_pair\<close> is either blocked,
  with a reason, no \<open>generated_at\<close> and a null email, or generated, with no reason and a
  \<open>generated_at\<close>; a record returned by \<open>EmailGenerator.generate_email\<close> is either blocked
  with a reason and a null email or generated with a null reason, and carries
  \<open>generated_at\<close> in both cases.  A generated record has a non-null email whenever its
  content is the fallback's; when it is a parsed reply of the service, its email field is
  the reply's.
\<close>

theorem record_field_presence:
  "(generate_email_for_pair E r e day ai use_ai = (c, Inr rec) \<longrightarrow>
      (meta_field rec ''status'' = Some (JStr ''blocked'')
         \<and> present (meta_field rec ''reason'')
         \<and> \<not> present (meta_field rec ''generated_at'')
         \<and> \<not> present (top_field rec ''email''))
      \<or> (meta_field rec ''status'' = Some (JStr ''generated'')
         \<and> \<not> present (meta_field rec ''reason'')
         \<and> present (meta_field rec ''generated_at'')
         \<and> (present (top_field rec ''email'')
             \<or> (c \<and> (\<exists>reply. ai_outcome E = Parsed reply
                       \<and> top_field rec ''email'' = top_field reply ''email'')))))
   \<and> (generate_email R T E llm r e day = (c, Inr rec) \<longrightarrow>
      present (meta_field rec ''generated_at'')
      \<and> ((meta_field rec ''status'' = Some (JStr ''blocked'')
            \<and> present (meta_field rec ''reason'')
            \<and> \<not> present (top_field rec ''email''))
         \<or> (meta_field rec ''status'' = Some (JStr ''generated'')
            \<and> \<not> present (meta_field rec ''reason'')
            \<and> (present (top_field rec ''email'')
                \<or> (c \<and> (\<exists>reply. ai_outcome E = Parsed reply
                          \<and> top_field rec ''email'' = top_field reply ''email''))))))"
  using pair_record_fields generator_record_fields by blast

theorem record_field_presence_witness:
  "(\<exists>rec. generate_email_for_pair sample_env sample_recipient sample_event ''1'' True True
            = (True, Inr rec)
     \<and> meta_field rec ''status'' = Some (JStr ''generated'')
     \<and> \<not> present (meta_field rec ''reason'')
     \<and> present (meta_field rec ''generated_at'')
     \<and> present (top_field rec ''email''))
   \<and> (\<exists>rec. generate_email VALIDATION_RULES [] sample_env True opted_out_recipient sample_event ''1''
            = (False, Inr rec)
     \<and> meta_field rec ''status'' = Some (JStr ''blocked'')
     \<and> present (meta_field rec ''reason'')
     \<and> present (meta_field rec ''generated_at'')
     \<and> \<not> present (top_field rec ''email''))"
proof -
  let ?res = "generate_email_for_pair sample_env sample_recipient sample_event ''1'' True True"
  let ?gen = "generate_email VALIDATION_RULES [] sample_env True opted_out_recipient sample_event ''1''"
  have h: "?res = (True, Inr (projr (snd ?res)))"
    by code_simp
  have s: "meta_field (projr (snd ?res)) ''status'' \<noteq> Some (JStr ''blocked'')"
    by code_simp
  have a: "\<forall>reply. ai_outcome sample_env \<noteq> Parsed reply"
    by (simp add: sample_env_def)
  have g: "?gen = (False, Inr (projr (snd ?gen)))"
    by code_simp
  have t: "meta_field (projr (snd ?gen)) ''status'' \<noteq> Some (JStr ''generated'')"
    by code_simp
  from record_field_presence[of sample_env sample_recipient sample_event "''1''" True True True
      "projr (snd ?res)"] h s a
  have 1: "\<exists>rec. ?res = (True, Inr rec)
     \<and> meta_field rec ''status'' = Some (JStr ''generated'')
     \<and> \<not> present (meta_field rec ''reason'')
     \<and> present (meta_field rec ''generated_at'')
     \<and> present (top_field rec ''email'')"
    by metis
  from record_field_presence[where R = VALIDATION_RULES and T = "[]" and E = sample_env
      and llm = True and r = opted_out_recipient and e = sample_event and day = "''1''"
      and c = False and rec = "projr (snd ?gen)"] g t
  have 2: "\<exists>rec. ?gen = (False, Inr rec)
     \<and> meta_field rec ''status'' = Some (JStr ''blocked'')
     \<and> present (meta_field rec ''reason'')
     \<and> present (meta_field rec ''generated_at'')
     \<and> \<not> present (top_field rec ''email'')"
    by metis
  from 1 2 show ?thesis
    by blast
qed

theorem record_field_presence_counterexample:
  "result_meta (generate_email VALIDATION_RULES [] sample_env False opted_out_recipient sample_event ''1'')
      ''status'' = Some (JStr ''blocked'')
   \<and> present (result_meta
        (generate_email VALIDATION_RULES [] sample_env False opted_out_recipient sample_event ''1'')
        ''generated_at'')"
  by code_simp

section \<open>Facts about the fallback of brain.py\<close>



section \<open>Claims about provider failure\<close>



section \<open>Facts about the deadline and topic checks\<close>

lemma check_topics_not_deadline:
  "check_topics E r e ws \<noteq> Inr (s, ''deadline_passed'', ws')"
  using check_topics_cases[of E r e ws s "''deadline_passed''" ws'] by auto

lemma match_topics_not_deadline:
  "match_topics R E r e ws \<noteq> Inr (s, ''deadline_passed'', ws')"
  by (auto simp add: match_topics_def ebind_eq_Inr Let_def split: if_splits)

lemma brain_deadline:
  assumes "validate_recipient r = []" and "validate_event e = Inr []"
    and "\<not> truthy (get_default r ''opt_out'' (JBool False))"
    and "attr_get (get_default e ''metadata'' (JObj [])) ''application_deadline'' JNull = Inr d"
  shows "should_send_email E r e =
     (if \<not> truthy d then check_topics E r e []
      else case deadline_utc E d of
             Inl msg \<Rightarrow> check_topics E r e [''Invalid deadline format: '' @ msg]
           | Inr t \<Rightarrow> if t < now_utc E
                      then Inr (False, ''deadline_passed'',
                             [''Application deadline has passed - DO NOT SEND''])
                      else check_topics E r e [])"
  using assms
  by (auto simp add: should_send_email_def is_deadline_passed_def split: sum.splits)

lemma generator_deadline:
  assumes "\<not> truthy (get_default r ''opt_out'' (JBool False))"
    and "attr_get (get_default e ''metadata'' (JObj [])) ''application_deadline'' JNull = Inr d"
  shows "validate_request R E r e =
     (if \<not> truthy d
      then match_topics R E r e
             (missing_fields ''Missing recipient field: '' (required_recipient_fields R) r)
      else case deadline_utc E d of
             Inl msg \<Rightarrow> match_topics R E r e
               (missing_fields ''Missing recipient field: '' (required_recipient_fields R) r
                @ [''Invalid deadline format''])
           | Inr t \<Rightarrow> if t < now_utc E
                      then Inr (False, ''deadline_passed'', [''Deadline passed''])
                      else match_topics R E r e
                             (missing_fields ''Missing recipient field: ''
                                (required_recipient_fields R) r))"
  using assms
  by (auto simp add: validate_request_def Let_def split: sum.splits)



section \<open>Claims about topics and deadlines\<close>




text \<open>
  Claim C6, as amended.  For a recipient that has not opted out (and, in brain.py, a pair
  that passes validation): a deadline that is absent or falsy (null, empty) skips the
  check, with no warning; a truthy deadline that cannot be parsed or converted adds a
  warning and the decision is the topic check's, which never is \<open>deadline_passed\<close>; a
  deadline that parses, a naive value localized to IST and the result converted to UTC, and
  lies strictly before the current instant is blocked with \<open>deadline_passed\<close>, whatever
  the topics; any other deadline leaves the decision to the topic check.  This holds for
  \<open>should_send_email\<close> and for \<open>EmailGenerator._validate_request\<close>.
\<close>

theorem deadline_rule:
  assumes "\<not> truthy (get_default r ''opt_out'' (JBool False))"
    and "attr_get (get_default e ''metadata'' (JObj [])) ''application_deadline'' JNull = Inr d"
  shows "(validate_recipient r = [] \<and> validate_event e = Inr [] \<longrightarrow>
            should_send_email E r e =
              (if \<not> truthy d then check_topics E r e []
               else case deadline_utc E d of
                      Inl msg \<Rightarrow> check_topics E r e [''Invalid deadline format: '' @ msg]
                    | Inr t \<Rightarrow> if t < now_utc E
                               then Inr (False, ''deadline_passed'',
                                      [''Application deadline has passed - DO NOT SEND''])
                               else check_topics E r e []))
       \<and> validate_request R E r e =
              (if \<not> truthy d
               then match_topics R E r e
                      (missing_fields ''Missing recipient field: '' (required_recipient_fields R) r)
               else case deadline_utc E d of
                      Inl msg \<Rightarrow> match_topics R E r e
                        (missing_fields ''Missing recipient field: '' (required_recipient_fields R) r
                         @ [''Invalid deadline format''])
                    | Inr t \<Rightarrow> if t < now_utc E
                               then Inr (False, ''deadline_passed'', [''Deadline passed''])
                               else match_topics R E r e
                                      (missing_fields ''Missing recipient field: ''
                                         (required_recipient_fields R) r))
       \<and> check_topics E r e ws \<noteq> Inr (s, ''deadline_passed'', ws')
       \<and> match_topics R E r e ws \<noteq> Inr (s, ''deadline_passed'', ws')
       \<and> (dateparse E d = Inr p \<longrightarrow>
            deadline_utc E d =
              (case tzoffset p of
                 Some off \<Rightarrow> astimezone_utc (wall p) off
               | None \<Rightarrow> (case ist_localize E (wall p) of
                            Inl msg \<Rightarrow> Inl msg
                          | Inr off \<Rightarrow> astimezone_utc (wall p) off)))"
  using brain_deadline[OF _ _ assms] generator_deadline[OF assms]
    check_topics_not_deadline match_topics_not_deadline
  by (simp add: deadline_utc_def split: option.splits)

theorem deadline_rule_witness:
  "should_send_email sample_env sample_recipient past_deadline_event =
     Inr (False, ''deadline_passed'', [''Application deadline has passed - DO NOT SEND''])
   \<and> validate_request VALIDATION_RULES sample_env sample_recipient past_deadline_event =
     Inr (False, ''deadline_passed'', [''Deadline passed''])
   \<and> deadline_utc sample_env (JStr ''2020-01-01'') = Inr (1577836800000000 - 19800000000)"
proof -
  have a: "\<not> truthy (get_default sample_recipient ''opt_out'' (JBool False))"
    by code_simp
  have b: "attr_get (get_default past_deadline_event ''metadata'' (JObj [])) ''application_deadline''
             JNull = Inr (JStr ''2020-01-01'')"
    by code_simp
  have c: "validate_recipient sample_recipient = [] \<and> validate_event past_deadline_event = Inr []"
    by code_simp
  have p: "dateparse sample_env (JStr ''2020-01-01'')
             = Inr \<lparr> wall = 1577836800000000, tzoffset = None \<rparr>"
    by (simp add: sample_env_def)
  have l: "ist_localize sample_env 1577836800000000 = Inr 19800000000"
    and n: "now_utc sample_env = 1793750400000000"
    by (simp_all add: sample_env_def)
  note rule = deadline_rule[OF a b, where E = sample_env and R = VALIDATION_RULES
      and p = "\<lparr> wall = 1577836800000000, tzoffset = None \<rparr>"]
  from rule p l have u: "deadline_utc sample_env (JStr ''2020-01-01'')
      = Inr (1577836800000000 - 19800000000)"
    by (simp add: astimezone_utc_def)
  from rule c u n show ?thesis
    by simp
qed

theorem deadline_rule_counterexample:
  "validate_recipient sample_recipient = []
   \<and> validate_event blank_deadline_event = Inr []
   \<and> \<not> truthy (get_default sample_recipient ''opt_out'' (JBool False))
   \<and> map_of blank_deadline_event ''metadata''
       = Some (JObj [(''amount_range'', JStr ''10k-50k''), (''application_deadline'', JStr [])])
   \<and> deadline_utc sample_env (JStr []) = Inl ''String does not contain a date''
   \<and> should_send_email sample_env sample_recipient blank_deadline_event = Inr (True, ''approved'', [])
   \<and> validate_request VALIDATION_RULES sample_env sample_recipient blank_deadline_event
       = Inr (True, ''approved'', [])"
  by code_simp



section \<open>Facts about the batch iteration\<close>








section \<open>Claims about the batch\<close>



section \<open>Facts about the hand-off and the sender\<close>



lemma send_single_dry: "send_single_with_retry C True f = Inr (True, None)"
  by (simp add: send_single_with_retry_def)

lemma send_loop_step:
  assumes "send_loop C dry_run f n idx (e # es) st = (None, st')"
  shows "\<exists>st2. send_loop C dry_run f n (idx + 1) es st2 = (None, st')
           \<and> attempted st2 = attempted st + 1
           \<and> (if deliverable e
                then skipped st2 = skipped st
                     \<and> sent st2 + failed st2 = sent st + failed st + 1
                     \<and> (dry_run \<longrightarrow> failed st2 = failed st)
                else skipped st2 = skipped st + 1
                     \<and> sent st2 = sent st \<and> failed st2 = failed st)"
proof (cases "deliverable e")
  case False
  then show ?thesis
    using assms by (auto simp add: deliverable_def Let_def)
next
  case True
  show ?thesis
  proof (cases dry_run)
    case True
    with \<open>deliverable e\<close> assms show ?thesis
      by (auto simp add: deliverable_def Let_def send_single_with_retry_def
          split: option.splits)
  next
    case False
    with \<open>deliverable e\<close> assms show ?thesis
      by (auto simp add: deliverable_def Let_def
          split: sum.splits prod.splits option.splits if_splits)
  qed
qed

lemma send_loop_counts:
  assumes "send_loop C dry_run f n idx emails st = (None, st')"
  shows "attempted st' = attempted st + length emails
         \<and> skipped st' = skipped st + length (filter (\<lambda>e. \<not> deliverable e) emails)
         \<and> sent st' + failed st' = sent st + failed st + length (filter deliverable emails)
         \<and> (dry_run \<longrightarrow> failed st' = failed st)"
  using assms
proof (induction emails arbitrary: idx st)
  case Nil
  then show ?case by simp
next
  case (Cons e es)
  from send_loop_step[OF Cons.prems] obtain st2 where
    rest: "send_loop C dry_run f n (idx + 1) es st2 = (None, st')"
    and a: "attempted st2 = attempted st + 1"
    and b: "if deliverable e
            then skipped st2 = skipped st
                 \<and> sent st2 + failed st2 = sent st + failed st + 1
                 \<and> (dry_run \<longrightarrow> failed st2 = failed st)
            else skipped st2 = skipped st + 1
                 \<and> sent st2 = sent st \<and> failed st2 = failed st"
    by blast
  from Cons.IH[OF rest] a b show ?case
    by (cases "deliverable e") simp_all
qed

lemma send_loop_dry: "fst (send_loop C True f n idx emails st) = None"
  by (induction emails arbitrary: idx st)
     (auto simp add: Let_def send_single_dry rate_limit_def)

lemma send_batch_cases:
  assumes "send_batch C dry_run smtp_ok f emails st = (None, st')"
  shows "(st' = st \<and> (emails = [] \<or> (\<not> dry_run \<and> \<not> smtp_ok)))
         \<or> ((dry_run \<or> smtp_ok)
            \<and> send_loop C dry_run f (int (length emails)) 1 emails st = (None, st'))"
  using assms by (auto simp add: send_batch_def split: if_splits)

lemma send_batch_partition:
  assumes "send_batch C dry_run smtp_ok f emails st = (None, st')"
    and "attempted st = sent st + failed st + skipped st"
  shows "attempted st' = sent st' + failed st' + skipped st' \<and> (dry_run \<longrightarrow> failed st' = failed st)"
  using send_batch_cases[OF assms(1)]
proof
  assume "st' = st \<and> (emails = [] \<or> (\<not> dry_run \<and> \<not> smtp_ok))"
  then show ?thesis
    using assms(2) by simp
next
  assume "(dry_run \<or> smtp_ok)
            \<and> send_loop C dry_run f (int (length emails)) 1 emails st = (None, st')"
  then have "send_loop C dry_run f (int (length emails)) 1 emails st = (None, st')"
    by simp
  from send_loop_counts[OF this] assms(2) sum_length_filter_compl[of deliverable emails]
  show ?thesis
    by simp
qed


lemma dry_run_eval:
  "send_batch default_config True False (\<lambda>idx attempt. None)
     [no_address_entry, addressed_entry] init_stats
   = (None, \<lparr> attempted = 2, sent = 1, failed = 0, skipped = 1 \<rparr>)"
  by code_simp

lemma failing_eval:
  "send_batch default_config False True
     (\<lambda>idx attempt. if idx = 2 then Some ''Connection unexpectedly closed'' else None)
     [addressed_entry, addressed_entry, no_address_entry] init_stats
   = (None, \<lparr> attempted = 3, sent = 1, failed = 1, skipped = 1 \<rparr>)"
  by code_simp

lemma second_call_eval:
  "send_batch default_config True False (\<lambda>idx attempt. None) [addressed_entry]
     \<lparr> attempted = 2, sent = 1, failed = 0, skipped = 1 \<rparr>
   = (None, \<lparr> attempted = 3, sent = 2, failed = 0, skipped = 1 \<rparr>)"
  by code_simp

section \<open>Claims about delivery\<close>




text \<open>
  Claim C10.  Every return of \<open>send_batch\<close> preserves
  \<open>attempted = sent + failed + skipped\<close>, so the counters of a new sender satisfy it on
  return, through the loop (where every email adds one to \<open>attempted\<close>) as well as on the
  early returns; a dry run leaves \<open>failed\<close> as it is, zero for a new sender, and always
  returns.
\<close>

theorem counter_partition:
  "(send_batch C dry_run smtp_ok f emails st = (None, st')
      \<and> attempted st = sent st + failed st + skipped st
    \<longrightarrow> attempted st' = sent st' + failed st' + skipped st'
        \<and> (dry_run \<longrightarrow> failed st' = failed st)
        \<and> (emails \<noteq> [] \<and> (dry_run \<or> smtp_ok) \<longrightarrow> attempted st' = attempted st + length emails))
   \<and> (send_batch C dry_run smtp_ok f emails init_stats = (None, st')
    \<longrightarrow> attempted st' = sent st' + failed st' + skipped st'
        \<and> (dry_run \<longrightarrow> failed st' = 0))
   \<and> (dry_run \<longrightarrow> fst (send_batch C dry_run smtp_ok f emails st) = None)"
proof (intro conjI impI)
  assume a: "send_batch C dry_run smtp_ok f emails st = (None, st')
      \<and> attempted st = sent st + failed st + skipped st"
  then show "attempted st' = sent st' + failed st' + skipped st'"
    using send_batch_partition[of C dry_run smtp_ok f emails st st'] by simp
  from a show "failed st' = failed st" if dry_run
    using send_batch_partition[of C dry_run smtp_ok f emails st st'] that by simp
  from a show "attempted st' = attempted st + length emails" if "emails \<noteq> [] \<and> (dry_run \<or> smtp_ok)"
    using send_batch_cases[of C dry_run smtp_ok f emails st st']
      send_loop_counts[of C dry_run f "int (length emails)" 1 emails st st'] that
    by auto
next
  assume b: "send_batch C dry_run smtp_ok f emails init_stats = (None, st')"
  have i: "attempted init_stats = sent init_stats + failed init_stats + skipped init_stats"
    by (simp add: init_stats_def)
  from send_batch_partition[OF b i] show "attempted st' = sent st' + failed st' + skipped st'"
    by simp
  from send_batch_partition[OF b i] show "failed st' = 0" if dry_run
    using that by (simp add: init_stats_def)
next
  assume dry_run
  then show "fst (send_batch C dry_run smtp_ok f emails st) = None"
    by (simp add: send_batch_def send_loop_dry)
qed

theorem counter_partition_witness:
  "attempted \<lparr> attempted = 3, sent = 1, failed = 1, skipped = 1 \<rparr>
     = sent \<lparr> attempted = 3, sent = 1, failed = 1, skipped = 1 \<rparr>
       + failed \<lparr> attempted = 3, sent = 1, failed = 1, skipped = 1 \<rparr>
       + skipped \<lparr> attempted = 3, sent = 1, failed = 1, skipped = 1 \<rparr>
   \<and> failed \<lparr> attempted = 2, sent = 1, failed = 0, skipped = 1 \<rparr> = 0
   \<and> attempted \<lparr> attempted = 3, sent = 2, failed = 0, skipped = 1 \<rparr>
     = attempted \<lparr> attempted = 2, sent = 1, failed = 0, skipped = 1 \<rparr> + length [addressed_entry]
   \<and> fst (send_batch default_config True False (\<lambda>idx attempt. None)
            [no_address_entry, addressed_entry] init_stats) = None"
proof -
  from counter_partition[of default_config False True
      "\<lambda>idx attempt. if idx = 2 then Some ''Connection unexpectedly closed'' else None"
      "[addressed_entry, addressed_entry, no_address_entry]" _
      "\<lparr> attempted = 3, sent = 1, failed = 1, skipped = 1 \<rparr>"] failing_eval
  have 1: "attempted \<lparr> attempted = 3, sent = 1, failed = 1, skipped = 1 \<rparr>
     = sent \<lparr> attempted = 3, sent = 1, failed = 1, skipped = 1 \<rparr>
       + failed \<lparr> attempted = 3, sent = 1, failed = 1, skipped = 1 \<rparr>
       + skipped \<lparr> attempted = 3, sent = 1, failed = 1, skipped = 1 \<rparr>"
    by blast
  from counter_partition[of default_config True False "\<lambda>idx attempt. None"
      "[no_address_entry, addressed_entry]" init_stats
      "\<lparr> attempted = 2, sent = 1, failed = 0, skipped = 1 \<rparr>"] dry_run_eval
  have 2: "failed \<lparr> attempted = 2, sent = 1, failed = 0, skipped = 1 \<rparr> = 0"
    and 4: "fst (send_batch default_config True False (\<lambda>idx attempt. None)
            [no_address_entry, addressed_entry] init_stats) = None"
    by blast+
  have i: "attempted \<lparr> attempted = 2, sent = 1, failed = 0, skipped = 1 \<rparr>
     = sent \<lparr> attempted = 2, sent = 1, failed = 0, skipped = 1 \<rparr>
       + failed \<lparr> attempted = 2, sent = 1, failed = 0, skipped = 1 \<rparr>
       + skipped \<lparr> attempted = 2, sent = 1, failed = 0, skipped = 1 \<rparr>"
    by simp
  have ne: "[addressed_entry] \<noteq> []"
    by simp
  from counter_partition[of default_config True False "\<lambda>idx attempt. None"
      "[addressed_entry]" "\<lparr> attempted = 2, sent = 1, failed = 0, skipped = 1 \<rparr>"
      "\<lparr> attempted = 3, sent = 2, failed = 0, skipped = 1 \<rparr>"] second_call_eval i ne
  have 3: "attempted \<lparr> attempted = 3, sent = 2, failed = 0, skipped = 1 \<rparr>
     = attempted \<lparr> attempted = 2, sent = 1, failed = 0, skipped = 1 \<rparr> + length [addressed_entry]"
    by blast
  from 1 2 3 4 show ?thesis
    by blast
qed

end
